theory Spec2Isabelle
  imports Complex_Main "HOL-Library.Multiset"
begin

section \<open>The tabular dataset\<close>

text \<open>
  The analysis engine of \<^verbatim>\<open>EDA.py\<close> works on a pandas \<^verbatim>\<open>DataFrame\<close>. A frame is an
  ordered sequence of named, typed columns over a common row index. A cell is either
  null (\<open>None\<close>: pandas' \<^verbatim>\<open>NaN\<close>/\<^verbatim>\<open>None\<close>, what \<^verbatim>\<open>isnull()\<close> reports) or a value of
  type \<open>'v\<close>; values are compared by equality only, so the type is left open.

  The declared type of a column is its pandas dtype. A \<^verbatim>\<open>category\<close> dtype carries its
  list of declared categories, which pandas keeps whether or not each category occurs in
  the column.
\<close>

datatype 'v dtype = Integer | Float | Text | Categorical "'v list" | Boolean | Datetime

record 'v series =
  col_name :: string
  col_dtype :: "'v dtype"
  col_values :: "'v option list"

record 'v dataframe =
  nrows :: nat
  cols :: "'v series list"

definition non_null :: "'v option list \<Rightarrow> 'v list" where
  "non_null xs = List.map_filter (\<lambda>x. x) xs"

definition wf_series :: "'v series \<Rightarrow> bool" where
  "wf_series c =
     (case col_dtype c of
        Categorical cats \<Rightarrow> distinct cats \<and> list_all (\<lambda>v. v \<in> set cats) (non_null (col_values c))
      | _ \<Rightarrow> True)"

text \<open>
  The invariants pandas maintains for every frame: column names are unique (the loaders
  \<^verbatim>\<open>read_csv\<close> and \<^verbatim>\<open>read_excel\<close> rename repeated headers), every column has one cell per
  row, and a categorical column holds only declared categories, each declared once.
\<close>

definition wf_df :: "'v dataframe \<Rightarrow> bool" where
  "wf_df D \<longleftrightarrow>
     distinct (map col_name (cols D)) \<and>
     list_all (\<lambda>c. length (col_values c) = nrows D \<and> wf_series c) (cols D)"

section \<open>Floating-point results\<close>

text \<open>
  pandas divides an integer series by a Python integer in IEEE arithmetic: nothing is
  raised for a zero divisor, \<^verbatim>\<open>0/0\<close> is not-a-number and \<^verbatim>\<open>x/0\<close> is infinite for positive
  \<^verbatim>\<open>x\<close>. Finite results are modelled by exact rationals; rounding is outside the model.
\<close>

datatype fval = Finite rat | PosInf | NaN

definition truediv :: "nat \<Rightarrow> nat \<Rightarrow> fval" where
  "truediv a b =
     (if b = 0 then (if a = 0 then NaN else PosInf)
      else Finite (rat_of_nat a / rat_of_nat b))"

fun times_100 :: "fval \<Rightarrow> fval" where
  "times_100 (Finite x) = Finite (x * 100)"
| "times_100 PosInf = PosInf"
| "times_100 NaN = NaN"

section \<open>The pandas operations used by the engine\<close>

text \<open>
  Three results of pandas are floating-point aggregates or storage estimates that the
  engine passes on without looking at them: the byte size of the frame, the statistics
  of \<^verbatim>\<open>describe()\<close> other than \<^verbatim>\<open>count\<close> (mean, std, min, quartiles, max), and the Pearson
  correlation matrix. They are parameters of the model.
\<close>

record ('v, 'a, 'c) pandas =
  lib_memory_usage :: "'v dataframe \<Rightarrow> nat"
  lib_describe :: "'v list \<Rightarrow> 'a"
  lib_corr :: "'v series list \<Rightarrow> 'c"

text \<open>\<^verbatim>\<open>df.isnull().sum().to_dict()\<close>: per column, the number of null cells.\<close>

definition isnull_sum :: "'v dataframe \<Rightarrow> (string \<times> nat) list" where
  "isnull_sum D =
     map (\<lambda>c. (col_name c, length (filter (\<lambda>x. x = None) (col_values c)))) (cols D)"

text \<open>\<^verbatim>\<open>(df.isnull().sum() / len(df) * 100).to_dict()\<close>.\<close>

definition isnull_pct :: "'v dataframe \<Rightarrow> (string \<times> fval) list" where
  "isnull_pct D = map (\<lambda>(n, k). (n, times_100 (truediv k (nrows D)))) (isnull_sum D)"

text \<open>
  \<^verbatim>\<open>select_dtypes(include=[np.number])\<close> keeps integer and float columns (a boolean
  column is not a number for pandas); \<^verbatim>\<open>include=['object', 'category']\<close> keeps text and
  categorical columns.
\<close>

fun is_number :: "'v dtype \<Rightarrow> bool" where
  "is_number Integer = True"
| "is_number Float = True"
| "is_number _ = False"

fun is_object_or_category :: "'v dtype \<Rightarrow> bool" where
  "is_object_or_category Text = True"
| "is_object_or_category (Categorical _) = True"
| "is_object_or_category _ = False"

definition select_dtypes :: "('v dtype \<Rightarrow> bool) \<Rightarrow> 'v dataframe \<Rightarrow> 'v series list" where
  "select_dtypes incl D = filter (\<lambda>c. incl (col_dtype c)) (cols D)"

text \<open>
  \<^verbatim>\<open>describe().to_dict()\<close> of a frame of numeric columns: per column, \<^verbatim>\<open>count\<close> is the
  number of non-null cells; the other statistics come from the library.
\<close>

record 'a col_stats =
  stat_count :: nat
  stat_rest :: 'a

definition describe :: "('v, 'a, 'c) pandas \<Rightarrow> 'v series list \<Rightarrow> (string \<times> 'a col_stats) list" where
  "describe lib cs =
     map (\<lambda>c. (col_name c,
                \<lparr>stat_count = length (non_null (col_values c)),
                 stat_rest = lib_describe lib (non_null (col_values c))\<rparr>)) cs"

text \<open>
  \<^verbatim>\<open>nunique()\<close> counts the distinct non-null values of a column. \<^verbatim>\<open>value_counts()\<close> lists
  values with their number of occurrences, most frequent first. For a text column the
  listed values are the distinct non-null values; for a categorical column they are all
  declared categories, so a category that never occurs is listed with count 0. Ties are
  kept in first-encountered order (no result below depends on the order of ties).
\<close>

definition nunique :: "'v series \<Rightarrow> nat" where
  "nunique c = length (remdups (non_null (col_values c)))"

definition value_counts :: "'v series \<Rightarrow> ('v \<times> nat) list" where
  "value_counts c =
     (let vs = non_null (col_values c);
          keys = (case col_dtype c of
                    Categorical cats \<Rightarrow> cats
                  | _ \<Rightarrow> rev (remdups (rev vs)))
      in sort_key (\<lambda>(v, n). - int n) (map (\<lambda>v. (v, count_list vs v)) keys))"

definition head :: "nat \<Rightarrow> 'x list \<Rightarrow> 'x list" where
  "head n xs = take n xs"

text \<open>
  \<^verbatim>\<open>df.duplicated().sum()\<close>: a row is marked when its tuple of cells equals the tuple of
  an earlier row (null equals null); pandas returns an empty series, whose sum is 0,
  for a frame without rows or without columns.
\<close>

definition row :: "'v dataframe \<Rightarrow> nat \<Rightarrow> 'v option list" where
  "row D i = map (\<lambda>c. col_values c ! i) (cols D)"

definition df_empty :: "'v dataframe \<Rightarrow> bool" where
  "df_empty D \<longleftrightarrow> nrows D = 0 \<or> cols D = []"

definition duplicated :: "'v dataframe \<Rightarrow> bool list" where
  "duplicated D =
     (if df_empty D then []
      else map (\<lambda>i. list_ex (\<lambda>j. row D j = row D i) [0..<i]) [0..<nrows D])"

definition sum_bool :: "bool list \<Rightarrow> nat" where
  "sum_bool bs = length (filter (\<lambda>b. b) bs)"

section \<open>The analysis engine\<close>

record 'v cat_info =
  unique_count :: nat
  top_values :: "('v \<times> nat) list"

text \<open>
  The results dictionary. Python dictionaries keep insertion order, so each is an
  association list. The three keys that \<^verbatim>\<open>perform_analysis\<close> sets only under a condition
  are optional: \<open>None\<close> is an absent key.
\<close>

record ('v, 'a, 'c) results =
  shape :: "nat \<times> nat"
  columns :: "string list"
  dtypes :: "(string \<times> 'v dtype) list"
  memory_usage :: nat
  missing_values :: "(string \<times> nat) list"
  missing_percentage :: "(string \<times> fval) list"
  numeric_summary :: "(string \<times> 'a col_stats) list option"
  correlation_matrix :: "'c option"
  categorical_summary :: "(string \<times> 'v cat_info) list option"
  duplicate_rows :: nat

record ('v, 'a, 'c) analyzer =
  df :: "'v dataframe"
  analysis_results :: "('v, 'a, 'c) results option"

text \<open>
  The progress callback is an observer with a state of its own; it returns the new
  state or raises (\<open>Raised\<close>). A dictionary read of a key that is not there raises
  \<open>KeyError\<close>. \<^verbatim>\<open>if progress_callback:\<close> skips an absent callback.
\<close>

datatype error = Raised string | KeyError string

type_synonym 's callback = "nat \<Rightarrow> string \<Rightarrow> 's \<Rightarrow> error + 's"

definition notify :: "'s callback option \<Rightarrow> nat \<Rightarrow> string \<Rightarrow> 's \<Rightarrow> error + 's" where
  "notify cb pct msg s = (case cb of None \<Rightarrow> Inr s | Some f \<Rightarrow> f pct msg s)"

text \<open>
  \<^verbatim>\<open>EDAAnalyzer.perform_analysis\<close>. An exception of the callback leaves the function at
  once: the local dictionary is dropped and \<^verbatim>\<open>self.analysis_results\<close> is not assigned.
  The frame \<^verbatim>\<open>self.df\<close> is only read: every pandas call used returns a new object.
  Since column names are unique, \<^verbatim>\<open>self.df[numeric_cols]\<close> and \<^verbatim>\<open>self.df[col]\<close> for
  \<^verbatim>\<open>col\<close> in \<^verbatim>\<open>cat_cols\<close> are the selected columns themselves.
\<close>

definition perform_analysis ::
  "('v, 'a, 'c) pandas \<Rightarrow> 's callback option \<Rightarrow> ('v, 'a, 'c) analyzer \<Rightarrow> 's \<Rightarrow>
     (error + (('v, 'a, 'c) results \<times> 's)) \<times> ('v, 'a, 'c) analyzer" where
  "perform_analysis lib cb self s0 =
    (case notify cb 10 ''Analyzing basic dataset information...'' s0 of
       Inl e \<Rightarrow> (Inl e, self)
     | Inr s1 \<Rightarrow>
    let r_shape = (nrows (df self), length (cols (df self)));
        r_columns = map col_name (cols (df self));
        r_dtypes = map (\<lambda>c. (col_name c, col_dtype c)) (cols (df self));
        r_memory = lib_memory_usage lib (df self)
    in
    (case notify cb 25 ''Checking for missing values...'' s1 of
       Inl e \<Rightarrow> (Inl e, self)
     | Inr s2 \<Rightarrow>
    let r_missing = isnull_sum (df self);
        r_pct = isnull_pct (df self)
    in
    (case notify cb 50 ''Analyzing numerical columns...'' s2 of
       Inl e \<Rightarrow> (Inl e, self)
     | Inr s3 \<Rightarrow>
    let numeric_cols = select_dtypes is_number (df self);
        r_numeric = (if numeric_cols \<noteq> [] then Some (describe lib numeric_cols) else None);
        r_corr = (if numeric_cols \<noteq> [] then Some (lib_corr lib numeric_cols) else None)
    in
    (case notify cb 75 ''Analyzing categorical columns...'' s3 of
       Inl e \<Rightarrow> (Inl e, self)
     | Inr s4 \<Rightarrow>
    let cat_cols = select_dtypes is_object_or_category (df self);
        r_cat = (if cat_cols \<noteq> []
                 then Some (map (\<lambda>c. (col_name c,
                                       \<lparr>unique_count = nunique c,
                                        top_values = head 10 (value_counts c)\<rparr>)) cat_cols)
                 else None)
    in
    (case notify cb 90 ''Checking for duplicate rows...'' s4 of
       Inl e \<Rightarrow> (Inl e, self)
     | Inr s5 \<Rightarrow>
    let r_dup = sum_bool (duplicated (df self)) in
    (case notify cb 100 ''Analysis complete!'' s5 of
       Inl e \<Rightarrow> (Inl e, self)
     | Inr s6 \<Rightarrow>
    let res = \<lparr>shape = r_shape, columns = r_columns, dtypes = r_dtypes,
               memory_usage = r_memory, missing_values = r_missing,
               missing_percentage = r_pct, numeric_summary = r_numeric,
               correlation_matrix = r_corr, categorical_summary = r_cat,
               duplicate_rows = r_dup\<rparr>
    in (Inr (res, s6), self\<lparr>analysis_results := Some res\<rparr>)))))))"

text \<open>\<^verbatim>\<open>EDAAnalyzer.__init__\<close>: the frame is stored, the stored results start empty.\<close>

definition init :: "'v dataframe \<Rightarrow> ('v, 'a, 'c) analyzer" where
  "init D = \<lparr>df = D, analysis_results = None\<rparr>"

text \<open>The dictionary that a run of \<open>perform_analysis\<close> builds when no callback raises.\<close>

definition analyze :: "('v, 'a, 'c) pandas \<Rightarrow> 'v dataframe \<Rightarrow> ('v, 'a, 'c) results" where
  "analyze lib D =
     \<lparr>shape = (nrows D, length (cols D)),
      columns = map col_name (cols D),
      dtypes = map (\<lambda>c. (col_name c, col_dtype c)) (cols D),
      memory_usage = lib_memory_usage lib D,
      missing_values = isnull_sum D,
      missing_percentage = isnull_pct D,
      numeric_summary =
        (if select_dtypes is_number D \<noteq> [] then Some (describe lib (select_dtypes is_number D))
         else None),
      correlation_matrix =
        (if select_dtypes is_number D \<noteq> [] then Some (lib_corr lib (select_dtypes is_number D))
         else None),
      categorical_summary =
        (if select_dtypes is_object_or_category D \<noteq> []
         then Some (map (\<lambda>c. (col_name c,
                               \<lparr>unique_count = nunique c,
                                top_values = head 10 (value_counts c)\<rparr>))
                        (select_dtypes is_object_or_category D))
         else None),
      duplicate_rows = sum_bool (duplicated D)\<rparr>"

text \<open>
  The arguments of the six calls \<^verbatim>\<open>progress_callback(pct, msg)\<close> in
  \<^verbatim>\<open>perform_analysis\<close>, in the order of the source, and the effect of making these
  calls one after the other on the state of the callback: an exception of one call ends
  the sequence, the later calls are not made.
\<close>

definition checkpoints :: "(nat \<times> string) list" where
  "checkpoints =
     [(10, ''Analyzing basic dataset information...''),
      (25, ''Checking for missing values...''),
      (50, ''Analyzing numerical columns...''),
      (75, ''Analyzing categorical columns...''),
      (90, ''Checking for duplicate rows...''),
      (100, ''Analysis complete!'')]"

fun calls :: "'s callback \<Rightarrow> (nat \<times> string) list \<Rightarrow> 's \<Rightarrow> error + 's" where
  "calls cb [] s = Inr s"
| "calls cb ((pct, msg) # rest) s =
     (case cb pct msg s of Inl e \<Rightarrow> Inl e | Inr s' \<Rightarrow> calls cb rest s')"

section \<open>Example inputs\<close>

text \<open>
  Concrete frames over a small value type, with a library whose opaque results are
  trivial. \<open>frame_A\<close> and \<open>frame_B\<close> are scenarios A and B of the specification;
  \<open>frame_cat\<close> has a categorical column with a declared category that never occurs.
\<close>

datatype pyval = PyInt int | PyStr string

definition unit_lib :: "(pyval, unit, unit) pandas" where
  "unit_lib = \<lparr>lib_memory_usage = (\<lambda>D. 0), lib_describe = (\<lambda>vs. ()), lib_corr = (\<lambda>cs. ())\<rparr>"

definition frame_A :: "pyval dataframe" where
  "frame_A =
     \<lparr>nrows = 3,
      cols = [\<lparr>col_name = ''n'', col_dtype = Integer,
               col_values = [Some (PyInt 1), Some (PyInt 2), Some (PyInt 2)]\<rparr>,
              \<lparr>col_name = ''t'', col_dtype = Text,
               col_values = [Some (PyStr ''a''), Some (PyStr ''b''), Some (PyStr ''b'')]\<rparr>]\<rparr>"

definition frame_B :: "pyval dataframe" where
  "frame_B =
     \<lparr>nrows = 0,
      cols = [\<lparr>col_name = ''n'', col_dtype = Integer, col_values = []\<rparr>,
              \<lparr>col_name = ''t'', col_dtype = Text, col_values = []\<rparr>]\<rparr>"

definition frame_cat :: "pyval dataframe" where
  "frame_cat =
     \<lparr>nrows = 1,
      cols = [\<lparr>col_name = ''g'', col_dtype = Categorical [PyStr ''a'', PyStr ''b''],
               col_values = [Some (PyStr ''a'')]\<rparr>]\<rparr>"

definition frame_null :: "pyval dataframe" where
  "frame_null =
     \<lparr>nrows = 2,
      cols = [\<lparr>col_name = ''x'', col_dtype = Float,
               col_values = [None, Some (PyInt 4)]\<rparr>]\<rparr>"



definition log_cb :: "(nat \<times> string) list callback" where
  "log_cb pct msg s = Inr (s @ [(pct, msg)])"

definition raise_cb :: "(nat \<times> string) list callback" where
  "raise_cb pct msg s = Inl (Raised ''callback failed'')"

definition raise_at :: "nat \<Rightarrow> (nat \<times> string) list callback" where
  "raise_at k pct msg s =
     (if pct = k then Inl (Raised ''callback failed'') else Inr (s @ [(pct, msg)]))"

section \<open>Permuted frames\<close>



section \<open>The report renderer\<close>

text \<open>
  \<^verbatim>\<open>QuickEDAApp.generate_pdf_report\<close> builds a list of reportlab flowables, the story, and
  hands it to \<^verbatim>\<open>SimpleDocTemplate.build\<close>. The model is the story as constructed: each
  paragraph with its text and style, each table with its cell strings. Table styling,
  reportlab's layout and the writing of the file are not part of it.
\<close>

datatype style = Normal | Heading2 | CustomTitle | CustomHeading

datatype flowable =
    Paragraph string style
  | Spacer nat nat
  | Table "string list list"
  | PageBreak















fun tables :: "flowable list \<Rightarrow> string list list list" where
  "tables [] = []"
| "tables (Table t # fs) = t # tables fs"
| "tables (f # fs) = tables fs"


section \<open>Basic facts about a run\<close>

lemma perform_analysis_no_callback:
  "perform_analysis lib None self s =
     (Inr (analyze lib (df self), s), self\<lparr>analysis_results := Some (analyze lib (df self))\<rparr>)"
  by (simp add: perform_analysis_def notify_def analyze_def Let_def)

lemma perform_analysis_outcome:
  "perform_analysis lib cb self s = (Inl e, self') \<Longrightarrow> self' = self"
  "perform_analysis lib cb self s = (Inr (r, s'), self') \<Longrightarrow>
     r = analyze lib (df self) \<and> self' = self\<lparr>analysis_results := Some r\<rparr>"
  by (auto simp: perform_analysis_def analyze_def Let_def split: sum.splits)

lemma perform_analysis_result:
  "fst (perform_analysis lib cb self s) = Inr (r, s') \<Longrightarrow> r = analyze lib (df self)"
  by (cases "perform_analysis lib cb self s") (auto dest: perform_analysis_outcome(2))

lemma perform_analysis_calls:
  "perform_analysis lib (Some cb) self s =
     (case calls cb checkpoints s of
        Inl e \<Rightarrow> (Inl e, self)
      | Inr s' \<Rightarrow> (Inr (analyze lib (df self), s'),
                  self\<lparr>analysis_results := Some (analyze lib (df self))\<rparr>))"
  by (simp add: perform_analysis_def notify_def checkpoints_def analyze_def Let_def
           split: sum.splits)

lemma calls_raise:
  "(p, m) \<in> set cps \<Longrightarrow> \<forall>t. cb p m t = Inl e \<Longrightarrow> \<exists>e'. calls cb cps s = Inl e'"
proof (induction cps arbitrary: s)
  case Nil
  then show ?case by simp
next
  case (Cons c cps)
  obtain p' m' where c: "c = (p', m')" by (cases c)
  show ?case
  proof (cases "cb p' m' s")
    case (Inl e')
    then show ?thesis by (simp add: c)
  next
    case (Inr s')
    with Cons.prems c have "(p, m) \<in> set cps" by auto
    from Cons.IH [OF this Cons.prems(2)] Inr show ?thesis by (simp add: c)
  qed
qed

lemma run_init:
  "fst (perform_analysis lib None (init D) s) = Inr (analyze lib D, s)"
  by (simp add: perform_analysis_no_callback init_def)

lemma wf_df_names: "wf_df D \<Longrightarrow> distinct (map col_name (cols D))"
  by (simp add: wf_df_def)

lemma wf_df_length: "wf_df D \<Longrightarrow> c \<in> set (cols D) \<Longrightarrow> length (col_values c) = nrows D"
  by (simp add: wf_df_def list_all_iff)

lemma wf_df_series: "wf_df D \<Longrightarrow> c \<in> set (cols D) \<Longrightarrow> wf_series c"
  by (simp add: wf_df_def list_all_iff)

lemma map_of_by_name:
  "distinct (map col_name cs) \<Longrightarrow> c \<in> set cs \<Longrightarrow>
     map_of (map (\<lambda>c. (col_name c, f c)) cs) (col_name c) = Some (f c)"
  by (induction cs) (auto simp: image_iff)

lemma null_plus_non_null:
  "length (non_null xs) + length (filter (\<lambda>x. x = None) xs) = length xs"
  by (induction xs) (auto simp: non_null_def map_filter_simps split: option.splits)

subsection \<open>The example frames\<close>

lemma wf_frame_A: "wf_df frame_A"
  by (simp add: wf_df_def frame_A_def wf_series_def)

lemma wf_frame_B: "wf_df frame_B"
  by (simp add: wf_df_def frame_B_def wf_series_def)

lemma wf_frame_null: "wf_df frame_null"
  by (simp add: wf_df_def frame_null_def wf_series_def)

lemma wf_frame_cat: "wf_df frame_cat"
  by (simp add: wf_df_def frame_cat_def wf_series_def non_null_def map_filter_simps)

lemma analyze_frame_B_pct:
  "missing_percentage (analyze unit_lib frame_B) = [(''n'', NaN), (''t'', NaN)]"
  by (simp add: analyze_def frame_B_def isnull_pct_def isnull_sum_def truediv_def)

lemma analyze_frame_null_pct:
  "missing_percentage (analyze unit_lib frame_null) = [(''x'', Finite 50)]"
  by (simp add: analyze_def frame_null_def isnull_pct_def isnull_sum_def truediv_def)

lemma value_counts_cat:
  "value_counts \<lparr>col_name = ''g'', col_dtype = Categorical [PyStr ''a'', PyStr ''b''],
               col_values = [Some (PyStr ''a'')]\<rparr> = [(PyStr ''a'', 1), (PyStr ''b'', 0)]"
  by (simp add: value_counts_def non_null_def map_filter_simps)

section \<open>Missing-value percentages (C1)\<close>

text \<open>
  C1 as stated says that a frame without rows gets the percentage 0 for every column.
  The code divides by \<^verbatim>\<open>len(self.df)\<close> without a guard, so pandas yields not-a-number:
  on scenario B, both columns get \<open>NaN\<close>, which is not 0.
\<close>

theorem zero_rows_percentage_counterexample:
  "nrows frame_B = 0 \<and>
   map_sum id (missing_percentage \<circ> fst)
     (fst (perform_analysis unit_lib None (init frame_B) ())) =
     Inr [(''n'', NaN), (''t'', NaN)] \<and>
   NaN \<noteq> Finite 0"
  by (simp add: run_init analyze_frame_B_pct) (simp add: frame_B_def)

text \<open>
  C1, amended: on a well-formed frame, \<^verbatim>\<open>missing_percentage\<close> has one entry per column, in
  column order. If the frame has no rows, every entry is not-a-number (nothing is
  raised); if it has rows, the entry of a column is its \<^verbatim>\<open>missing_values\<close> entry divided
  by the row count, times 100.
\<close>

theorem missing_percentage_by_row_count:
  assumes run: "fst (perform_analysis lib cb self s) = Inr (r, s')"
    and wf: "wf_df (df self)"
  shows "map fst (missing_percentage r) = map col_name (cols (df self)) \<and>
         (nrows (df self) = 0 \<longrightarrow>
            missing_percentage r = map (\<lambda>(n, k). (n, NaN)) (missing_values r)) \<and>
         (0 < nrows (df self) \<longrightarrow>
            missing_percentage r =
              map (\<lambda>(n, k). (n, Finite (rat_of_nat k / rat_of_nat (nrows (df self)) * 100)))
                  (missing_values r))"
proof -
  have r: "r = analyze lib (df self)" using run by (rule perform_analysis_result)
  have zero: "length (filter (\<lambda>x. x = None) (col_values c)) = 0"
    if "nrows (df self) = 0" "c \<in> set (cols (df self))" for c
    using wf_df_length [OF wf that(2)] that(1) by simp
  show ?thesis
    unfolding r
    by (auto simp: analyze_def isnull_pct_def isnull_sum_def truediv_def comp_def dest: zero)
qed

theorem missing_percentage_by_row_count_witness:
  "fst (perform_analysis unit_lib None (init frame_B) ()) = Inr (analyze unit_lib frame_B, ()) \<and>
   wf_df frame_B \<and> nrows frame_B = 0 \<and>
   missing_percentage (analyze unit_lib frame_B) =
     map (\<lambda>(n, k). (n, NaN)) (missing_values (analyze unit_lib frame_B)) \<and>
   fst (perform_analysis unit_lib None (init frame_null) ()) =
     Inr (analyze unit_lib frame_null, ()) \<and>
   wf_df frame_null \<and> 0 < nrows frame_null \<and>
   missing_percentage (analyze unit_lib frame_null) =
     map (\<lambda>(n, k). (n, Finite (rat_of_nat k / rat_of_nat (nrows frame_null) * 100)))
         (missing_values (analyze unit_lib frame_null))"
proof -
  have runB: "fst (perform_analysis unit_lib None (init frame_B) ()) =
              Inr (analyze unit_lib frame_B, ())"
    by (rule run_init)
  have wfB: "wf_df (df (init frame_B :: (pyval, unit, unit) analyzer))"
    by (simp add: init_def wf_frame_B)
  have rowsB: "nrows frame_B = 0" by (simp add: frame_B_def)
  have runN: "fst (perform_analysis unit_lib None (init frame_null) ()) =
              Inr (analyze unit_lib frame_null, ())"
    by (rule run_init)
  have wfN: "wf_df (df (init frame_null :: (pyval, unit, unit) analyzer))"
    by (simp add: init_def wf_frame_null)
  have rowsN: "0 < nrows frame_null" by (simp add: frame_null_def)
  show ?thesis
    using missing_percentage_by_row_count [OF runB wfB]
      missing_percentage_by_row_count [OF runN wfN]
      runB runN rowsB rowsN wf_frame_B wf_frame_null
    by (simp add: init_def)
qed

section \<open>The progress callback (C2)\<close>

text \<open>
  C2 as stated says that a raising callback does not make the analysis fail. The code
  calls the callback unprotected, so its exception leaves \<^verbatim>\<open>perform_analysis\<close>: with a
  callback that raises, the run on scenario A ends in the error, while the run without
  a callback returns the results.
\<close>

theorem raising_callback_counterexample:
  "fst (perform_analysis unit_lib None (init frame_A) []) = Inr (analyze unit_lib frame_A, []) \<and>
   fst (perform_analysis unit_lib (Some raise_cb) (init frame_A) []) =
     Inl (Raised ''callback failed'')"
  by (simp add: run_init) (simp add: perform_analysis_def notify_def raise_cb_def)

text \<open>
  C2, amended: a run with a callback that never raises returns and stores the same
  results as the run without a callback. A callback that raises makes the run fail with
  that exception, at whichever of the six checkpoints it raises: the run with a callback
  fails with the first exception of the six calls, and returns the results of the run
  without a callback when none of the six calls raises. In particular a callback that
  raises at one of the checkpoints whatever its state makes the run fail. Whenever a
  run fails, the analyzer is left as it was: no partial results are stored.
\<close>

theorem callback_only_observes:
  "((\<forall>p m t. \<exists>t'. cb p m t = Inr t') \<longrightarrow>
      (\<exists>r t'. perform_analysis lib None self t0 =
                (Inr (r, t0), self\<lparr>analysis_results := Some r\<rparr>) \<and>
              perform_analysis lib (Some cb) self t0 =
                (Inr (r, t'), self\<lparr>analysis_results := Some r\<rparr>))) \<and>
   (\<forall>e. cb 10 ''Analyzing basic dataset information...'' t0 = Inl e \<longrightarrow>
      perform_analysis lib (Some cb) self t0 = (Inl e, self)) \<and>
   (\<forall>e. fst (perform_analysis lib (Some cb) self t0) = Inl e \<longrightarrow>
      snd (perform_analysis lib (Some cb) self t0) = self) \<and>
   (\<forall>e. calls cb checkpoints t0 = Inl e \<longrightarrow>
      perform_analysis lib (Some cb) self t0 = (Inl e, self)) \<and>
   (\<forall>t'. calls cb checkpoints t0 = Inr t' \<longrightarrow>
      perform_analysis lib (Some cb) self t0 =
        (Inr (analyze lib (df self), t'),
         self\<lparr>analysis_results := Some (analyze lib (df self))\<rparr>)) \<and>
   (\<forall>p m e. (p, m) \<in> set checkpoints \<and> (\<forall>t. cb p m t = Inl e) \<longrightarrow>
      (\<exists>e'. perform_analysis lib (Some cb) self t0 = (Inl e', self)))"
proof (intro conjI impI allI)
  assume "\<forall>p m t. \<exists>t'. cb p m t = Inr t'"
  then obtain f where f: "\<And>p m t. cb p m t = Inr (f p m t)" by metis
  show "\<exists>r t'. perform_analysis lib None self t0 =
                (Inr (r, t0), self\<lparr>analysis_results := Some r\<rparr>) \<and>
              perform_analysis lib (Some cb) self t0 =
                (Inr (r, t'), self\<lparr>analysis_results := Some r\<rparr>)"
    by (simp add: perform_analysis_def notify_def f Let_def)
next
  fix e assume "cb 10 ''Analyzing basic dataset information...'' t0 = Inl e"
  then show "perform_analysis lib (Some cb) self t0 = (Inl e, self)"
    by (simp add: perform_analysis_def notify_def)
next
  fix e assume "fst (perform_analysis lib (Some cb) self t0) = Inl e"
  then show "snd (perform_analysis lib (Some cb) self t0) = self"
    by (cases "perform_analysis lib (Some cb) self t0") (auto dest: perform_analysis_outcome(1))
next
  fix e assume "calls cb checkpoints t0 = Inl e"
  then show "perform_analysis lib (Some cb) self t0 = (Inl e, self)"
    by (simp add: perform_analysis_calls)
next
  fix t' assume "calls cb checkpoints t0 = Inr t'"
  then show "perform_analysis lib (Some cb) self t0 =
        (Inr (analyze lib (df self), t'),
         self\<lparr>analysis_results := Some (analyze lib (df self))\<rparr>)"
    by (simp add: perform_analysis_calls)
next
  fix p m e assume h: "(p, m) \<in> set checkpoints \<and> (\<forall>t. cb p m t = Inl e)"
  from h have mem: "(p, m) \<in> set checkpoints" and always: "\<forall>t. cb p m t = Inl e"
    by simp_all
  have "\<exists>e'. calls cb checkpoints t0 = Inl e'"
    using mem always by (rule calls_raise [where p = p and m = m and cb = cb and e = e])
  then show "\<exists>e'. perform_analysis lib (Some cb) self t0 = (Inl e', self)"
    by (auto simp: perform_analysis_calls)
qed

theorem callback_only_observes_witness:
  "(\<forall>p m t. \<exists>t'. log_cb p m t = Inr t') \<and>
   (\<exists>t'. perform_analysis unit_lib (Some log_cb) (init frame_A) [] =
           (Inr (analyze unit_lib frame_A, t'),
            (init frame_A)\<lparr>analysis_results := Some (analyze unit_lib frame_A)\<rparr>)) \<and>
   raise_cb 10 ''Analyzing basic dataset information...'' [] = Inl (Raised ''callback failed'') \<and>
   perform_analysis unit_lib (Some raise_cb) (init frame_A) [] =
     (Inl (Raised ''callback failed''), init frame_A) \<and>
   calls (raise_at 75) checkpoints [] = Inl (Raised ''callback failed'') \<and>
   perform_analysis unit_lib (Some (raise_at 75)) (init frame_A) [] =
     (Inl (Raised ''callback failed''), init frame_A) \<and>
   calls log_cb checkpoints [] = Inr checkpoints \<and>
   perform_analysis unit_lib (Some log_cb) (init frame_A) [] =
     (Inr (analyze unit_lib frame_A, checkpoints),
      (init frame_A)\<lparr>analysis_results := Some (analyze unit_lib frame_A)\<rparr>) \<and>
   (100, ''Analysis complete!'') \<in> set checkpoints \<and>
   (\<forall>t. raise_at 100 100 ''Analysis complete!'' t = Inl (Raised ''callback failed'')) \<and>
   (\<exists>e'. perform_analysis unit_lib (Some (raise_at 100)) (init frame_A) [] =
           (Inl e', init frame_A))"
proof -
  have dfA: "df (init frame_A :: (pyval, unit, unit) analyzer) = frame_A"
    by (simp add: init_def)
  have ok: "\<forall>p m t. \<exists>t'. log_cb p m t = Inr t'" by (simp add: log_cb_def)
  have bad: "raise_cb 10 ''Analyzing basic dataset information...'' [] =
             Inl (Raised ''callback failed'')"
    by (simp add: raise_cb_def)
  have none: "perform_analysis unit_lib None (init frame_A) ([] :: (nat \<times> string) list) =
      (Inr (analyze unit_lib frame_A, []),
       (init frame_A)\<lparr>analysis_results := Some (analyze unit_lib frame_A)\<rparr>)"
    by (simp add: perform_analysis_no_callback init_def)
  from callback_only_observes [of log_cb unit_lib "init frame_A" "[]"] ok
  obtain r t' where
    a: "perform_analysis unit_lib None (init frame_A) ([] :: (nat \<times> string) list) =
          (Inr (r, []), (init frame_A)\<lparr>analysis_results := Some r\<rparr>)" and
    b: "perform_analysis unit_lib (Some log_cb) (init frame_A) [] =
          (Inr (r, t'), (init frame_A)\<lparr>analysis_results := Some r\<rparr>)"
    by blast
  from a none have "r = analyze unit_lib frame_A" by simp
  with b have good: "\<exists>t'. perform_analysis unit_lib (Some log_cb) (init frame_A) [] =
           (Inr (analyze unit_lib frame_A, t'),
            (init frame_A)\<lparr>analysis_results := Some (analyze unit_lib frame_A)\<rparr>)"
    by blast
  from callback_only_observes [of raise_cb unit_lib "init frame_A" "[]"] bad
  have fail: "perform_analysis unit_lib (Some raise_cb) (init frame_A) [] =
     (Inl (Raised ''callback failed''), init frame_A)"
    by blast
  have late: "calls (raise_at 75) checkpoints [] = Inl (Raised ''callback failed'')"
    by (simp add: checkpoints_def raise_at_def)
  from callback_only_observes [of "raise_at 75" unit_lib "init frame_A" "[]"] late
  have fail_late: "perform_analysis unit_lib (Some (raise_at 75)) (init frame_A) [] =
     (Inl (Raised ''callback failed''), init frame_A)"
    by blast
  have logged: "calls log_cb checkpoints [] = Inr checkpoints"
    by (simp add: checkpoints_def log_cb_def)
  from callback_only_observes [of log_cb unit_lib "init frame_A" "[]"] logged
  have full: "perform_analysis unit_lib (Some log_cb) (init frame_A) [] =
     (Inr (analyze unit_lib (df (init frame_A :: (pyval, unit, unit) analyzer)), checkpoints),
      (init frame_A)\<lparr>analysis_results :=
         Some (analyze unit_lib (df (init frame_A :: (pyval, unit, unit) analyzer)))\<rparr>)"
    by blast
  have mem: "(100, ''Analysis complete!'') \<in> set checkpoints"
    by (simp add: checkpoints_def)
  have always: "\<forall>t. raise_at 100 100 ''Analysis complete!'' t = Inl (Raised ''callback failed'')"
    by (simp add: raise_at_def)
  from callback_only_observes [of "raise_at 100" unit_lib "init frame_A" "[]"] mem always
  have fail_last: "\<exists>e'. perform_analysis unit_lib (Some (raise_at 100)) (init frame_A) [] =
           (Inl e', init frame_A)"
    by blast
  show ?thesis using ok good bad fail late fail_late logged full mem always fail_last
    unfolding dfA by blast
qed

section \<open>Presence of the numeric keys (C4)\<close>



section \<open>The column list (C6)\<close>



section \<open>The frame is not changed (C9)\<close>

text \<open>C9: after a run of \<^verbatim>\<open>perform_analysis\<close>, whether it returns or a callback raises, the
  frame held by the analyzer is the frame it held before.\<close>

theorem dataset_unchanged:
  "df (snd (perform_analysis lib cb self s)) = df self"
proof (cases "perform_analysis lib cb self s")
  case (Pair out self')
  show ?thesis
  proof (cases out)
    case (Inl e)
    with Pair have "self' = self" by (auto dest: perform_analysis_outcome(1))
    with Pair show ?thesis by simp
  next
    case (Inr rs)
    with Pair have "self' = self\<lparr>analysis_results := Some (fst rs)\<rparr>"
      by (cases rs) (auto dest: perform_analysis_outcome(2))
    with Pair show ?thesis by simp
  qed
qed

theorem dataset_unchanged_witness:
  "df (snd (perform_analysis unit_lib (Some log_cb) (init frame_A) [])) = frame_A \<and>
   df (snd (perform_analysis unit_lib (Some raise_cb) (init frame_A) [])) = frame_A"
  using dataset_unchanged [of unit_lib "Some log_cb" "init frame_A" "[]"]
    dataset_unchanged [of unit_lib "Some raise_cb" "init frame_A" "[]"]
  by (simp add: init_def)

section \<open>Count and missing values of a numeric column (C10)\<close>

text \<open>
  C10: on a well-formed frame, every numeric column has an entry in \<^verbatim>\<open>numeric_summary\<close>
  and in \<^verbatim>\<open>missing_values\<close>, and the \<^verbatim>\<open>count\<close> of the first plus the second is the number
  of rows: \<^verbatim>\<open>count\<close> is the row count minus the missing values.
\<close>

theorem numeric_count_complements_missing:
  assumes run: "fst (perform_analysis lib cb self s) = Inr (r, s')"
    and wf: "wf_df (df self)"
    and c: "c \<in> set (cols (df self))" and num: "is_number (col_dtype c)"
  shows "\<exists>ns st k. numeric_summary r = Some ns \<and> map_of ns (col_name c) = Some st \<and>
           map_of (missing_values r) (col_name c) = Some k \<and>
           stat_count st + k = nrows (df self) \<and> stat_count st = nrows (df self) - k"
proof -
  let ?D = "df self"
  let ?sel = "select_dtypes is_number ?D"
  have r: "r = analyze lib ?D" using run by (rule perform_analysis_result)
  have c_sel: "c \<in> set ?sel" using c num by (simp add: select_dtypes_def)
  have d_all: "distinct (map col_name (cols ?D))" using wf by (rule wf_df_names)
  then have d_sel: "distinct (map col_name ?sel)"
    by (simp add: select_dtypes_def distinct_map_filter)
  have ns: "numeric_summary r = Some (describe lib ?sel)"
    using c_sel by (auto simp: r analyze_def)
  have st: "map_of (describe lib ?sel) (col_name c) =
      Some \<lparr>stat_count = length (non_null (col_values c)),
            stat_rest = lib_describe lib (non_null (col_values c))\<rparr>"
    unfolding describe_def using d_sel c_sel by (rule map_of_by_name)
  have k: "map_of (missing_values r) (col_name c) =
      Some (length (filter (\<lambda>x. x = None) (col_values c)))"
    unfolding r analyze_def isnull_sum_def using d_all c by (simp add: map_of_by_name)
  have len: "length (col_values c) = nrows ?D" using wf c by (rule wf_df_length)
  have sum: "length (non_null (col_values c)) + length (filter (\<lambda>x. x = None) (col_values c)) =
             nrows ?D"
    using null_plus_non_null [of "col_values c"] len by simp
  show ?thesis using ns st k sum by auto
qed

theorem numeric_count_complements_missing_witness:
  "fst (perform_analysis unit_lib None (init frame_null) ()) =
     Inr (analyze unit_lib frame_null, ()) \<and>
   wf_df frame_null \<and>
   hd (cols frame_null) \<in> set (cols frame_null) \<and>
   is_number (col_dtype (hd (cols frame_null))) \<and>
   (\<exists>ns st k. numeric_summary (analyze unit_lib frame_null) = Some ns \<and>
      map_of ns ''x'' = Some st \<and>
      map_of (missing_values (analyze unit_lib frame_null)) ''x'' = Some k \<and>
      stat_count st + k = 2 \<and> stat_count st = 2 - k)"
proof -
  have run: "fst (perform_analysis unit_lib None (init frame_null) ()) =
             Inr (analyze unit_lib frame_null, ())"
    by (rule run_init)
  have dfN: "df (init frame_null :: (pyval, unit, unit) analyzer) = frame_null"
    by (simp add: init_def)
  have wf: "wf_df (df (init frame_null :: (pyval, unit, unit) analyzer))"
    unfolding dfN by (rule wf_frame_null)
  have c: "hd (cols frame_null) \<in> set (cols (df (init frame_null :: (pyval, unit, unit) analyzer)))"
    unfolding dfN by (simp add: frame_null_def)
  have num: "is_number (col_dtype (hd (cols frame_null)))"
    by (simp add: frame_null_def)
  have name: "col_name (hd (cols frame_null)) = ''x''" by (simp add: frame_null_def)
  have rows: "nrows frame_null = 2" by (simp add: frame_null_def)
  from numeric_count_complements_missing [OF run wf c num]
  have "\<exists>ns st k. numeric_summary (analyze unit_lib frame_null) = Some ns \<and>
      map_of ns ''x'' = Some st \<and>
      map_of (missing_values (analyze unit_lib frame_null)) ''x'' = Some k \<and>
      stat_count st + k = 2 \<and> stat_count st = 2 - k"
    unfolding dfN name rows .
  then show ?thesis
    using run wf_frame_null c num unfolding dfN by blast
qed

section \<open>Size of the top values (C7)\<close>

text \<open>
  C7 as stated bounds the size of \<^verbatim>\<open>top_values\<close> by \<^verbatim>\<open>unique_count\<close> for every text or
  categorical column. For a categorical column \<^verbatim>\<open>value_counts()\<close> lists every declared
  category, also one that never occurs, while \<^verbatim>\<open>nunique()\<close> counts the values that
  occur: a column with the categories a and b that holds only a has two top values and
  a unique count of 1.
\<close>

theorem unused_category_counterexample:
  "map_sum id (categorical_summary \<circ> fst)
     (fst (perform_analysis unit_lib None (init frame_cat) ())) =
     Inr (Some [(''g'', \<lparr>unique_count = 1,
                        top_values = [(PyStr ''a'', 1), (PyStr ''b'', 0)]\<rparr>)]) \<and>
   \<not> length [(PyStr ''a'', 1::nat), (PyStr ''b'', 0)] \<le> (1::nat)"
  by (simp add: run_init)
     (simp add: analyze_def frame_cat_def select_dtypes_def nunique_def head_def
        value_counts_cat non_null_def map_filter_simps)

lemma length_value_counts_categorical:
  "col_dtype c = Categorical cats \<Longrightarrow> length (value_counts c) = length cats"
  by (simp add: value_counts_def Let_def)

lemma length_value_counts_text:
  "col_dtype c = Text \<Longrightarrow> length (value_counts c) = nunique c"
  by (simp add: value_counts_def nunique_def Let_def length_remdups_card_conv)

lemma categories_all_observed:
  assumes "wf_series c" and "col_dtype c = Categorical cats"
    and "set cats \<subseteq> set (non_null (col_values c))"
  shows "length cats = nunique c"
proof -
  have "distinct cats" and "set (non_null (col_values c)) \<subseteq> set cats"
    using assms(1,2) by (auto simp: wf_series_def list_all_iff)
  then have "set (non_null (col_values c)) = set cats" using assms(3) by auto
  moreover have "card (set cats) = length cats"
    using \<open>distinct cats\<close> by (rule distinct_card)
  ultimately show ?thesis
    by (simp add: nunique_def length_remdups_card_conv)
qed

text \<open>
  C7, amended: \<^verbatim>\<open>categorical_summary\<close> is present exactly when the frame has a text or
  categorical column. On a well-formed frame every such column has an entry whose
  \<^verbatim>\<open>top_values\<close> has at most 10 elements; for a text column it has at most
  \<^verbatim>\<open>unique_count\<close> elements; for a categorical column it has at most as many elements
  as there are declared categories, and at most \<^verbatim>\<open>unique_count\<close> when every declared
  category occurs in the column.
\<close>

theorem top_values_bounds:
  assumes run: "fst (perform_analysis lib cb self s) = Inr (r, s')"
    and wf: "wf_df (df self)"
  shows "(categorical_summary r \<noteq> None \<longleftrightarrow>
            (\<exists>c \<in> set (cols (df self)). is_object_or_category (col_dtype c))) \<and>
         (\<forall>c \<in> set (cols (df self)). is_object_or_category (col_dtype c) \<longrightarrow>
            (\<exists>cs info. categorical_summary r = Some cs \<and>
               map_of cs (col_name c) = Some info \<and>
               length (top_values info) \<le> 10 \<and>
               (col_dtype c = Text \<longrightarrow> length (top_values info) \<le> unique_count info) \<and>
               (\<forall>cats. col_dtype c = Categorical cats \<longrightarrow>
                  length (top_values info) \<le> length cats \<and>
                  (set cats \<subseteq> set (non_null (col_values c)) \<longrightarrow>
                     length (top_values info) \<le> unique_count info))))"
proof (intro conjI ballI impI)
  let ?D = "df self"
  let ?sel = "select_dtypes is_object_or_category ?D"
  let ?info = "\<lambda>c. \<lparr>unique_count = nunique c, top_values = head 10 (value_counts c)\<rparr>"
  have r: "r = analyze lib ?D" using run by (rule perform_analysis_result)
  show "categorical_summary r \<noteq> None \<longleftrightarrow>
          (\<exists>c \<in> set (cols ?D). is_object_or_category (col_dtype c))"
    by (simp add: r analyze_def select_dtypes_def filter_empty_conv)
  fix c assume c: "c \<in> set (cols ?D)" and cat: "is_object_or_category (col_dtype c)"
  have c_sel: "c \<in> set ?sel" using c cat by (simp add: select_dtypes_def)
  have "distinct (map col_name ?sel)"
    using wf_df_names [OF wf] by (simp add: select_dtypes_def distinct_map_filter)
  then have look: "map_of (map (\<lambda>c. (col_name c, ?info c)) ?sel) (col_name c) = Some (?info c)"
    using c_sel by (rule map_of_by_name)
  have cs: "categorical_summary r = Some (map (\<lambda>c. (col_name c, ?info c)) ?sel)"
    using c_sel by (auto simp: r analyze_def)
  have b10: "length (top_values (?info c)) \<le> 10" by (simp add: head_def)
  have btext: "col_dtype c = Text \<longrightarrow> length (top_values (?info c)) \<le> unique_count (?info c)"
    by (simp add: head_def length_value_counts_text)
  have bcat: "length (top_values (?info c)) \<le> length cats \<and>
              (set cats \<subseteq> set (non_null (col_values c)) \<longrightarrow>
                 length (top_values (?info c)) \<le> unique_count (?info c))"
    if "col_dtype c = Categorical cats" for cats
    using that categories_all_observed [OF wf_df_series [OF wf c] that]
    by (simp add: head_def length_value_counts_categorical)
  show "\<exists>cs info. categorical_summary r = Some cs \<and>
               map_of cs (col_name c) = Some info \<and>
               length (top_values info) \<le> 10 \<and>
               (col_dtype c = Text \<longrightarrow> length (top_values info) \<le> unique_count info) \<and>
               (\<forall>cats. col_dtype c = Categorical cats \<longrightarrow>
                  length (top_values info) \<le> length cats \<and>
                  (set cats \<subseteq> set (non_null (col_values c)) \<longrightarrow>
                     length (top_values info) \<le> unique_count info))"
    using cs look b10 btext bcat by blast
qed


theorem top_values_bounds_witness:
  "fst (perform_analysis unit_lib None (init frame_A) ()) = Inr (analyze unit_lib frame_A, ()) \<and>
   wf_df frame_A \<and>
   categorical_summary (analyze unit_lib frame_A) \<noteq> None \<and>
   (\<exists>cs info. categorical_summary (analyze unit_lib frame_A) = Some cs \<and>
      map_of cs ''t'' = Some info \<and>
      length (top_values info) \<le> 10 \<and> length (top_values info) \<le> unique_count info) \<and>
   fst (perform_analysis unit_lib None (init frame_cat) ()) =
     Inr (analyze unit_lib frame_cat, ()) \<and>
   wf_df frame_cat \<and>
   (\<exists>cs info. categorical_summary (analyze unit_lib frame_cat) = Some cs \<and>
      map_of cs ''g'' = Some info \<and>
      length (top_values info) \<le> 10 \<and> length (top_values info) \<le> 2)"
proof -
  define t where "t = cols frame_A ! 1"
  define g where "g = cols frame_cat ! 0"
  have runA: "fst (perform_analysis unit_lib None (init frame_A) ()) =
              Inr (analyze unit_lib frame_A, ())"
    by (rule run_init)
  have runC: "fst (perform_analysis unit_lib None (init frame_cat) ()) =
              Inr (analyze unit_lib frame_cat, ())"
    by (rule run_init)
  have dfA: "df (init frame_A :: (pyval, unit, unit) analyzer) = frame_A"
    by (simp add: init_def)
  have dfC: "df (init frame_cat :: (pyval, unit, unit) analyzer) = frame_cat"
    by (simp add: init_def)
  have wfA: "wf_df (df (init frame_A :: (pyval, unit, unit) analyzer))"
    unfolding dfA by (rule wf_frame_A)
  have wfC: "wf_df (df (init frame_cat :: (pyval, unit, unit) analyzer))"
    unfolding dfC by (rule wf_frame_cat)
  have t: "t \<in> set (cols frame_A)" "is_object_or_category (col_dtype t)"
    "col_dtype t = Text" "col_name t = ''t''"
    by (simp_all add: t_def frame_A_def)
  have g: "g \<in> set (cols frame_cat)" "is_object_or_category (col_dtype g)"
    "col_dtype g = Categorical [PyStr ''a'', PyStr ''b'']" "col_name g = ''g''"
    by (simp_all add: g_def frame_cat_def)
  note A = top_values_bounds [OF runA wfA, unfolded dfA]
  note C = top_values_bounds [OF runC wfC, unfolded dfC]
  have A1: "categorical_summary (analyze unit_lib frame_A) \<noteq> None"
    using A t(1,2) by blast
  have A2: "\<exists>cs info. categorical_summary (analyze unit_lib frame_A) = Some cs \<and>
      map_of cs ''t'' = Some info \<and>
      length (top_values info) \<le> 10 \<and> length (top_values info) \<le> unique_count info"
    using A t by metis
  have C2: "\<exists>cs info. categorical_summary (analyze unit_lib frame_cat) = Some cs \<and>
      map_of cs ''g'' = Some info \<and>
      length (top_values info) \<le> 10 \<and> length (top_values info) \<le> length [PyStr ''a'', PyStr ''b'']"
    using C g by metis
  show ?thesis
    using runA runC wf_frame_A wf_frame_cat A1 A2 C2 by (simp add: numeral_2_eq_2)
qed

section \<open>Duplicate rows under permutations (C5)\<close>

















section \<open>The categorical section of the report (C8)\<close>


lemma tables_append: "tables (xs @ ys) = tables xs @ tables ys"
  by (induction xs rule: tables.induct) simp_all














end
